theory Spec2Isabelle
  imports Complex_Main "HOL-Library.Char_ord" "HOL-Library.List_Lexorder" "HOL-Library.Product_Lexorder" "HOL-Library.Sublist"
begin

section \<open>Exceptions shared by the modelled modules\<close>

text \<open>
  Every raise of the modelled Python code is a value of \<open>py_error\<close>. A function that can
  raise after it has already mutated its object returns the mutated state together with
  \<open>Some e\<close>; \<open>None\<close> means that it returned normally.
  \<open>RuntimeError\<close> is what \<open>Lock.release()\<close> raises on an unlocked lock
  (\<open>thread.error\<close> in Python 2).
\<close>

datatype py_error = IndexError | OSError | RuntimeError | AttributeError
  | KeyboardInterrupt | EngineError

section \<open>The mpv audio service (mycroft/audio/services/mpv/__init__.py)\<close>

datatype player_cmd = PlayerStop | PlayerPlay string

text \<open>
  \<open>MPVService\<close>: the track list, the track index and, as the observable effect on the
  external player, the list of commands sent to it so far.
\<close>

record mpv_service =
  tracks :: "string list"
  index :: int
  player :: "player_cmd list"

text \<open>
  \<open>xs[i]\<close> as Python evaluates it: positions \<open>-len(xs) .. -1\<close> address the list from
  its end, positions \<open>0 .. len(xs) - 1\<close> from its start, every other position raises.
\<close>

definition py_index :: "'a list \<Rightarrow> int \<Rightarrow> py_error + 'a" where
  "py_index xs i =
     (if 0 \<le> i \<and> i < int (length xs) then Inr (xs ! nat i)
      else if i < 0 \<and> - int (length xs) \<le> i then Inr (xs ! nat (int (length xs) + i))
      else Inl IndexError)"

text \<open>
  \<open>play\<close>: \<open>if len(self.tracks): self.player.stop(); self.player.play(self.tracks[self.index])\<close>.
  The argument \<open>self.tracks[self.index]\<close> is evaluated after \<open>self.player.stop()\<close> has run.
\<close>

definition play_mpv :: "mpv_service \<Rightarrow> mpv_service \<times> py_error option" where
  "play_mpv s =
     (if length (tracks s) \<noteq> 0 then
        (let s1 = s\<lparr>player := player s @ [PlayerStop]\<rparr>
         in case py_index (tracks s1) (index s1) of
              Inl e \<Rightarrow> (s1, Some e)
            | Inr t \<Rightarrow> (s1\<lparr>player := player s1 @ [PlayerPlay t]\<rparr>, None))
      else (s, None))"

text \<open>\<open>next\<close>: advance the index, reset it when it is greater than the length, play.\<close>

definition next_mpv :: "mpv_service \<Rightarrow> mpv_service \<times> py_error option" where
  "next_mpv s =
     (let s1 = s\<lparr>index := index s + 1\<rparr>;
          s2 = (if index s1 > int (length (tracks s1)) then s1\<lparr>index := 0\<rparr> else s1)
      in play_mpv s2)"

text \<open>\<open>previous\<close>: step the index back, never below 0, play.\<close>

definition previous_mpv :: "mpv_service \<Rightarrow> mpv_service \<times> py_error option" where
  "previous_mpv s =
     (let s1 = s\<lparr>index := index s - 1\<rparr>;
          s2 = (if index s1 < 0 then s1\<lparr>index := 0\<rparr> else s1)
      in play_mpv s2)"

section \<open>The cache curator (curate_cache in mycroft/util/__init__.py)\<close>

text \<open>
  The curator reads the file system through \<open>psutil.disk_usage\<close>, \<open>os.listdir\<close>,
  \<open>os.stat\<close> and \<open>os.remove\<close>. The file system is modelled by what these calls
  return. Python floats are modelled as exact rationals.
\<close>

text \<open>The three fields of an \<open>os.stat\<close> result that the curator reads.\<close>

record file_stat =
  st_isreg :: bool  \<comment> \<open>\<open>S_ISREG(stat[ST_MODE])\<close>\<close>
  st_mtime :: int   \<comment> \<open>\<open>stat[ST_MTIME]\<close>\<close>
  st_size :: nat    \<comment> \<open>\<open>stat[ST_SIZE]\<close>\<close>

record file_node =
  node_stat :: file_stat
  removable :: bool  \<comment> \<open>False: \<open>os.remove\<close> of this file raises (permission denied)\<close>

text \<open>The named tuple returned by \<open>psutil.disk_usage\<close>.\<close>

record sdiskusage =
  du_total :: nat
  du_used :: nat
  du_free :: nat
  du_percent :: rat

record filesys =
  usage :: "sdiskusage option"      \<comment> \<open>\<open>psutil.disk_usage(directory)\<close>; None: it raises\<close>
  listing :: "string list option"   \<comment> \<open>\<open>os.listdir(directory)\<close>; None: it raises\<close>
  nodes :: "string \<rightharpoonup> file_node"     \<comment> \<open>the file at each path; None: no such file\<close>

definition os_stat :: "filesys \<Rightarrow> string \<Rightarrow> py_error + file_stat" where
  "os_stat fs path = (case nodes fs path of None \<Rightarrow> Inl OSError | Some n \<Rightarrow> Inr (node_stat n))"

text \<open>The file system once the file at \<open>path\<close> is gone.\<close>

definition unlink :: "filesys \<Rightarrow> string \<Rightarrow> filesys" where
  "unlink fs path = fs\<lparr>nodes := (nodes fs)(path := None)\<rparr>"

text \<open>\<open>os.remove(path)\<close>: raises when there is no such file or it may not be removed.\<close>

definition os_remove :: "filesys \<Rightarrow> string \<Rightarrow> py_error + filesys" where
  "os_remove fs path =
     (case nodes fs path of
        None \<Rightarrow> Inl OSError
      | Some n \<Rightarrow> if removable n then Inr (unlink fs path) else Inl OSError)"

text \<open>\<open>os.path.join(directory, fn)\<close> for a file name \<open>fn\<close> that \<open>os.listdir\<close> returned.\<close>

definition path_join :: "string \<Rightarrow> string \<Rightarrow> string" where
  "path_join directory fn =
     (if directory = [] then fn
      else if last directory = CHR ''/'' then directory @ fn
      else directory @ ''/'' @ fn)"

text \<open>\<open>int(x)\<close> of a float: truncation towards zero.\<close>

definition py_int :: "rat \<Rightarrow> int" where
  "py_int x = (if 0 \<le> x then \<lfloor>x\<rfloor> else \<lceil>x\<rceil>)"

text \<open>
  \<open>((os.stat(path), path) for path in entries)\<close>, consumed by \<open>sorted\<close> before anything is
  deleted: the first \<open>os.stat\<close> that raises ends the call.
\<close>

fun stat_entries :: "filesys \<Rightarrow> string list \<Rightarrow> py_error + (file_stat \<times> string) list" where
  "stat_entries fs [] = Inr []"
| "stat_entries fs (path # paths) =
     (case os_stat fs path of
        Inl e \<Rightarrow> Inl e
      | Inr st \<Rightarrow> (case stat_entries fs paths of
                     Inl e \<Rightarrow> Inl e
                   | Inr rest \<Rightarrow> Inr ((st, path) # rest)))"

text \<open>
  \<open>((stat[ST_MTIME], stat[ST_SIZE], path) for stat, path in entries if S_ISREG(stat[ST_MODE]))\<close>
\<close>

definition regular_entries :: "(file_stat \<times> string) list \<Rightarrow> (int \<times> nat \<times> string) list" where
  "regular_entries ents =
     map (\<lambda>(st, path). (st_mtime st, st_size st, path)) (filter (\<lambda>(st, path). st_isreg st) ents)"

text \<open>
  The deletion loop over \<open>sorted(entries)\<close>, with the running \<open>space_freed\<close>:
  a removal that raises is swallowed by the bare \<open>except\<close>; the test
  \<open>space_freed > bytes_needed\<close> follows every removal attempt.
\<close>

fun sweep :: "int \<Rightarrow> (int \<times> nat \<times> string) list \<Rightarrow> filesys \<Rightarrow> int \<Rightarrow> filesys" where
  "sweep bytes_needed [] fs space_freed = fs"
| "sweep bytes_needed ((moddate, fsize, path) # rest) fs space_freed =
     (case os_remove fs path of
        Inr fs' \<Rightarrow>
          if space_freed + int fsize > bytes_needed then fs'
          else sweep bytes_needed rest fs' (space_freed + int fsize)
      | Inl e \<Rightarrow>
          if space_freed > bytes_needed then fs
          else sweep bytes_needed rest fs space_freed)"

text \<open>\<open>percent_free = 100.0 - space.percent\<close>\<close>

definition percent_free :: "sdiskusage \<Rightarrow> rat" where
  "percent_free space = 100 - du_percent space"

text \<open>
  \<open>bytes_needed = (min_free_percent - percent_free) / 100.0 * space.total\<close>, then
  \<open>bytes_needed = int(bytes_needed + 1.0)\<close>.
\<close>

definition bytes_needed :: "sdiskusage \<Rightarrow> rat \<Rightarrow> int" where
  "bytes_needed space min_free_percent =
     py_int ((min_free_percent - percent_free space) / 100 * of_nat (du_total space) + 1)"

text \<open>
  \<open>curate_cache(directory, min_free_percent, min_free_disk)\<close>. The tuples
  \<open>(mtime, size, path)\<close> are sorted in Python's tuple order, which is the lexicographic
  order of the product type. The \<open>LOG.info\<close> call is not modelled.
\<close>

definition curate_cache :: "filesys \<Rightarrow> string \<Rightarrow> rat \<Rightarrow> rat \<Rightarrow> filesys \<times> py_error option" where
  "curate_cache fs directory min_free_percent min_free_disk_mb =
     (case usage fs of
        None \<Rightarrow> (fs, Some OSError)
      | Some space \<Rightarrow>
          (let min_free_disk = min_free_disk_mb * (1024 * 1024)
           in if percent_free space < min_free_percent \<and> of_nat (du_free space) < min_free_disk
              then
                (case listing fs of
                   None \<Rightarrow> (fs, Some OSError)
                 | Some names \<Rightarrow>
                     (case stat_entries fs (map (path_join directory) names) of
                        Inl e \<Rightarrow> (fs, Some e)
                      | Inr ents \<Rightarrow>
                          (sweep (bytes_needed space min_free_percent)
                             (sort (regular_entries ents)) fs 0, None)))
              else (fs, None)))"

subsection \<open>What a sweep did, read off the file system\<close>

text \<open>Whether \<open>os.remove(path)\<close> succeeds in the file system \<open>fs\<close>.\<close>

definition deletable :: "filesys \<Rightarrow> string \<Rightarrow> bool" where
  "deletable fs path = (case nodes fs path of None \<Rightarrow> False | Some n \<Rightarrow> removable n)"

fun entry_path :: "int \<times> nat \<times> string \<Rightarrow> string" where
  "entry_path (moddate, fsize, path) = path"



subsection \<open>Example file systems\<close>

text \<open>A full disk of 200 bytes, and the stat results of three directory entries.\<close>

definition full_disk :: sdiskusage where
  "full_disk = \<lparr>du_total = 200, du_used = 200, du_free = 0, du_percent = 100\<rparr>"

definition stat_a :: file_stat where
  "stat_a = \<lparr>st_isreg = True, st_mtime = 1, st_size = 101\<rparr>"

definition stat_b :: file_stat where
  "stat_b = \<lparr>st_isreg = True, st_mtime = 2, st_size = 10\<rparr>"

definition stat_d :: file_stat where
  "stat_d = \<lparr>st_isreg = False, st_mtime = 0, st_size = 4096\<rparr>"

text \<open>A large disk that is 97 percent full and still has 300 MB free.\<close>

definition roomy_disk :: sdiskusage where
  "roomy_disk =
     \<lparr>du_total = 10000000000, du_used = 9700000000, du_free = 300000000, du_percent = 97\<rparr>"

definition cache_roomy :: filesys where
  "cache_roomy =
     \<lparr>usage = Some roomy_disk,
      listing = Some [''a''],
      nodes = [''/c/a'' \<mapsto> \<lparr>node_stat = stat_a, removable = True\<rparr>]\<rparr>"


definition cache_locked :: filesys where
  "cache_locked =
     \<lparr>usage = Some full_disk,
      listing = Some [''b'', ''d'', ''a''],
      nodes = [''/c/a'' \<mapsto> \<lparr>node_stat = stat_a, removable = False\<rparr>,
               ''/c/b'' \<mapsto> \<lparr>node_stat = stat_b, removable = True\<rparr>,
               ''/c/d'' \<mapsto> \<lparr>node_stat = stat_d, removable = True\<rparr>]\<rparr>"
section \<open>Speech orchestration (mycroft/audio/speech.py)\<close>

subsection \<open>The two regular expressions of handle_speak\<close>

text \<open>
  Characters are 8-bit; the classes \<open>\w\<close> and \<open>\s\<close> are the ASCII ones, which is what
  \<open>re\<close> uses when neither the LOCALE nor the UNICODE flag is given.
\<close>

definition is_upper :: "char \<Rightarrow> bool" where
  "is_upper c = (CHR ''A'' \<le> c \<and> c \<le> CHR ''Z'')"

definition is_lower :: "char \<Rightarrow> bool" where
  "is_lower c = (CHR ''a'' \<le> c \<and> c \<le> CHR ''z'')"

definition is_word :: "char \<Rightarrow> bool" where
  "is_word c = (is_upper c \<or> is_lower c \<or> (CHR ''0'' \<le> c \<and> c \<le> CHR ''9'') \<or> c = CHR ''_'')"

definition is_space :: "char \<Rightarrow> bool" where
  "is_space c = (c \<in> set [CHR '' '', CHR 0x09, CHR 0x0A, CHR 0x0B, CHR 0x0C, CHR 0x0D])"

text \<open>
  The three lookbehinds of \<open>(?<!\w\.\w.)(?<![A-Z][a-z]\.)(?<=\.|\?)\s\<close>. Each reads the
  text before the current position, given here in reverse (nearest character first).
  The dot of the first one matches any character but a newline.
\<close>

fun behind_initials :: "string \<Rightarrow> bool" where
  "behind_initials (d # c # b # a # seen) =
     (is_word a \<and> b = CHR ''.'' \<and> is_word c \<and> d \<noteq> CHR 0x0A)"
| "behind_initials seen = False"

fun behind_title :: "string \<Rightarrow> bool" where
  "behind_title (c # b # a # seen) = (is_upper a \<and> is_lower b \<and> c = CHR ''.'')"
| "behind_title seen = False"

fun behind_stop :: "string \<Rightarrow> bool" where
  "behind_stop (c # seen) = (c = CHR ''.'' \<or> c = CHR ''?'')"
| "behind_stop seen = False"

text \<open>Whether the pattern matches the character \<open>c\<close> that follows the reversed text.\<close>

definition boundary :: "string \<Rightarrow> char \<Rightarrow> bool" where
  "boundary seen c =
     (\<not> behind_initials seen \<and> \<not> behind_title seen \<and> behind_stop seen \<and> is_space c)"

text \<open>
  \<open>re.split\<close> with this pattern: every match is one character and depends on the text
  before it only, so the matches are all positions where \<open>boundary\<close> holds. \<open>piece\<close> is
  the reversed text since the last match.
\<close>

fun split_from :: "string \<Rightarrow> string \<Rightarrow> string \<Rightarrow> string list" where
  "split_from seen piece [] = [rev piece]"
| "split_from seen piece (c # rest) =
     (if boundary seen c then rev piece # split_from (c # seen) [] rest
      else split_from (c # seen) (c # piece) rest)"

definition re_split :: "string \<Rightarrow> string list" where
  "re_split utterance = split_from [] [] utterance"

text \<open>
  \<open>re.findall('<[^>]*>', utterance)\<close>. A match starts at a \<open><\<close> and ends at the first
  \<open>>\<close> after it; \<open>tag\<close> is the reversed text of the match under way, if any. A
  \<open><\<close> with no \<open>>\<close> after it starts no match, and then no later position does.
\<close>

fun findall_markup :: "string option \<Rightarrow> string \<Rightarrow> string list" where
  "findall_markup tag [] = []"
| "findall_markup None (c # rest) =
     (if c = CHR ''<'' then findall_markup (Some [c]) rest else findall_markup None rest)"
| "findall_markup (Some tag) (c # rest) =
     (if c = CHR ''>'' then rev (c # tag) # findall_markup None rest
      else findall_markup (Some (c # tag)) rest)"

subsection \<open>Module state and the external collaborators\<close>

text \<open>
  The configuration as far as the module reads it: \<open>config.get('enclosure', {}).get('platform')\<close>
  and the \<open>tts\<close> subtree, the latter by its string representation (None: no such key).
\<close>

record config =
  platform :: "string option"
  tts_section :: "string option"

text \<open>
  The value of the global \<open>tts_hash\<close>: \<open>init\<close> stores the subtree \<open>config.get('tts')\<close>
  itself, \<open>mute_and_speak\<close> stores \<open>hash(str(config.get('tts', '')))\<close>. \<open>Raw None\<close> is
  Python's None, the value at import. A subtree or None is never equal to an integer.
\<close>

datatype fingerprint = Raw "string option" | Hashed int

text \<open>Calls that leave the module, in the order they are made.\<close>

datatype event =
    On string | Once string | Emit string
  | LogInfo string | LogError string
  | Create nat | EngineInit nat
  | PlaybackStop nat | PlaybackJoin nat
  | ClearQueue nat | ClearVisemes nat
  | Execute nat string string
  | Acquire | Release
  | StopwatchStart | StopwatchStop | ReportTiming string

text \<open>
  The globals of the module. Engines are numbered in the order \<open>TTSFactory.create()\<close>
  returns them; \<open>created\<close> counts them. \<open>lock\<close> is True while the lock is locked.
\<close>

record speech =
  speak_flag :: bool
  config :: "config option"
  tts :: "nat option"
  tts_hash :: fingerprint
  lock :: bool
  last_stop_signal :: rat
  trace :: "event list"
  created :: nat

text \<open>
  A call of \<open>handle_stop\<close> on another thread: the time \<open>time.time()\<close> returns in it and
  what \<open>check_for_signal("isSpeaking", -1)\<close> returns in it.
\<close>

record stop_request =
  stop_time :: rat
  is_speaking :: bool

text \<open>
  What the module cannot decide by itself: the builtin \<open>hash\<close>, whether the engine's
  \<open>execute\<close> raises on an utterance, whether \<open>TTSFactory.create()\<close> raises, what
  \<open>Configuration.get()\<close> and \<open>time.time()\<close> return in \<open>handle_speak\<close>, and, for the
  chunk at each position of the loop, the stop requests handled on other threads while
  that chunk is spoken and the result of \<open>check_for_signal('buttonPress')\<close> after it.
\<close>

record world =
  py_hash :: "string \<Rightarrow> int"
  execute_raises :: "string \<Rightarrow> py_error option"
  create_raises :: bool
  configuration :: config
  now :: rat
  stops_during :: "nat \<Rightarrow> stop_request list"
  button_press :: "nat \<Rightarrow> bool"

text \<open>The payload and context of a \<open>speak\<close> message.\<close>

record speak_event =
  ev_utterance :: string
  ev_ident :: "string option"
  ev_expect_response :: bool
  ev_mute :: bool

datatype outcome = Returned | Raised py_error | Blocked

definition record_events :: "event list \<Rightarrow> speech \<Rightarrow> speech" where
  "record_events evs s = s\<lparr>trace := trace s @ evs\<rparr>"

text \<open>\<open>hash(str(config.get('tts', '')))\<close>\<close>

definition tts_fingerprint :: "world \<Rightarrow> config \<Rightarrow> int" where
  "tts_fingerprint w cfg = py_hash w (case tts_section cfg of None \<Rightarrow> [] | Some t \<Rightarrow> t)"

text \<open>\<open>lock.release()\<close>: raises on a lock that is not locked.\<close>

definition lock_release :: "speech \<Rightarrow> speech \<times> py_error option" where
  "lock_release s =
     (if lock s then (record_events [Release] (s\<lparr>lock := False\<rparr>), None)
      else (s, Some RuntimeError))"

subsection \<open>init, mute_and_speak, handle_stop, handle_speak\<close>

text \<open>The globals as the module sets them at import.\<close>

definition loaded :: speech where
  "loaded = \<lparr>speak_flag = True, config = None, tts = None, tts_hash = Raw None, lock = False,
             last_stop_signal = 0, trace = [], created = 0\<rparr>"

text \<open>
  \<open>init(websocket)\<close>: reads the configuration, registers the seven handlers, creates
  and initialises the engine, and stores \<open>config.get('tts')\<close> in \<open>tts_hash\<close>.
\<close>

definition init :: "world \<Rightarrow> speech \<Rightarrow> speech \<times> py_error option" where
  "init w s =
     (let cfg = configuration w;
          s1 = record_events
                 [On ''mycroft.stop'', On ''mycroft.audio.speech.stop'', On ''mycroft.mic.listen'',
                  On ''speak'', On ''speak.enable'', On ''speak.disable'',
                  On ''speak.status.request'']
                 (s\<lparr>config := Some cfg\<rparr>)
      in if create_raises w then (s1, Some EngineError)
         else
           (let n = created s1;
                s2 = record_events [Create n, EngineInit n] (s1\<lparr>tts := Some n, created := Suc n\<rparr>)
            in (s2\<lparr>tts_hash := Raw (tts_section cfg)\<rparr>, None)))"

text \<open>
  \<open>set_speak_flag(event)\<close> and \<open>unset_speak_flag(event)\<close>: set the flag and emit
  \<open>speak.status\<close> through \<open>speak_status\<close>.
\<close>

definition set_speak_flag :: "speech \<Rightarrow> speech" where
  "set_speak_flag s = record_events [Emit ''speak.status''] (s\<lparr>speak_flag := True\<rparr>)"

definition unset_speak_flag :: "speech \<Rightarrow> speech" where
  "unset_speak_flag s = record_events [Emit ''speak.status''] (s\<lparr>speak_flag := False\<rparr>)"

text \<open>
  Lines 131 to 137: stop and join the playback thread of the old engine, create and
  initialise a new engine, store the fingerprint.
\<close>

definition replace_tts :: "world \<Rightarrow> config \<Rightarrow> speech \<Rightarrow> speech \<times> py_error option" where
  "replace_tts w cfg s =
     (case tts s of
        None \<Rightarrow> (s, Some AttributeError)
      | Some old \<Rightarrow>
          (let s1 = record_events [PlaybackStop old, PlaybackJoin old] s
           in if create_raises w then (s1, Some EngineError)
              else
                (let n = created s1;
                     s2 = record_events [Create n, EngineInit n]
                            (s1\<lparr>tts := Some n, created := Suc n\<rparr>)
                 in (s2\<lparr>tts_hash := Hashed (tts_fingerprint w cfg)\<rparr>, None))))"

text \<open>\<open>tts.execute(utterance, ident)\<close>\<close>

definition tts_execute :: "world \<Rightarrow> string \<Rightarrow> string \<Rightarrow> speech \<Rightarrow> speech \<times> py_error option" where
  "tts_execute w utterance ident s =
     (case tts s of
        None \<Rightarrow> (s, Some AttributeError)
      | Some engine \<Rightarrow> (record_events [Execute engine utterance ident] s, execute_raises w utterance))"

text \<open>
  Lines 128 to 137: the engine is replaced when \<open>tts_hash\<close> differs from the
  fingerprint of the \<open>tts\<close> subtree of the global \<open>config\<close>.
\<close>

definition update_tts :: "world \<Rightarrow> speech \<Rightarrow> speech \<times> py_error option" where
  "update_tts w s =
     (case config s of
        None \<Rightarrow> (s, Some AttributeError)
      | Some cfg \<Rightarrow>
          if tts_hash s \<noteq> Hashed (tts_fingerprint w cfg) then replace_tts w cfg s
          else (s, None))"

text \<open>
  Lines 139 to 143: \<open>try: if not mute: tts.execute(utterance, ident)\<close> and
  \<open>finally: lock.release()\<close>. An exception raised by the release replaces the one of
  the \<open>try\<close> block.
\<close>

definition execute_and_release ::
  "world \<Rightarrow> string \<Rightarrow> string \<Rightarrow> bool \<Rightarrow> speech \<Rightarrow> speech \<times> py_error option" where
  "execute_and_release w utterance ident mute s =
     (let (s2, r) = (if \<not> mute then tts_execute w utterance ident s else (s, None));
          (s3, r') = lock_release s2
      in (s3, case r' of Some e \<Rightarrow> Some e | None \<Rightarrow> r))"

text \<open>
  \<open>mute_and_speak(utterance, ident, mute)\<close>. The engine update is outside the \<open>try\<close>,
  so an exception in it skips the \<open>finally\<close>.
\<close>

definition mute_and_speak ::
  "world \<Rightarrow> string \<Rightarrow> string \<Rightarrow> bool \<Rightarrow> speech \<Rightarrow> speech \<times> py_error option" where
  "mute_and_speak w utterance ident mute s =
     (let s0 = record_events [LogInfo (''Speak: '' @ utterance)] s
      in if \<not> speak_flag s0 then (s0, None)
         else
           (case update_tts w s0 of
              (s1, Some e) \<Rightarrow> (s1, Some e)
            | (s1, None) \<Rightarrow> execute_and_release w utterance ident mute s1))"

text \<open>\<open>handle_stop(event)\<close>, run with the time and the signal of the request.\<close>

definition handle_stop :: "stop_request \<Rightarrow> speech \<Rightarrow> speech \<times> py_error option" where
  "handle_stop req s =
     (if is_speaking req then
        (let s1 = s\<lparr>last_stop_signal := stop_time req\<rparr>
         in case tts s1 of
              None \<Rightarrow> (s1, Some AttributeError)
            | Some engine \<Rightarrow> (record_events [ClearQueue engine, ClearVisemes engine] s1, None))
      else (s, None))"

text \<open>
  The stop requests that other threads handle while one chunk is spoken, in their order.
  An exception in such a handler stays in its own thread.
\<close>

definition handle_stops :: "stop_request list \<Rightarrow> speech \<Rightarrow> speech" where
  "handle_stops reqs s = fold (\<lambda>req s'. fst (handle_stop req s')) reqs s"

text \<open>
  The loop over the chunks (lines 99 to 107); \<open>i\<close> is the position of the next chunk.
  KeyboardInterrupt is raised again, any other exception is logged. The stop marker
  is read after the chunk; the button signal is read only if the marker is not newer
  than \<open>start\<close>.
\<close>

fun speak_chunks ::
  "world \<Rightarrow> rat \<Rightarrow> string \<Rightarrow> nat \<Rightarrow> string list \<Rightarrow> speech \<Rightarrow> speech \<times> py_error option" where
  "speak_chunks w start ident i [] s = (s, None)"
| "speak_chunks w start ident i (chunk # chunks) s =
     (case mute_and_speak w chunk ident False s of
        (s1, Some KeyboardInterrupt) \<Rightarrow> (s1, Some KeyboardInterrupt)
      | (s1, r) \<Rightarrow>
          (let s2 = (case r of None \<Rightarrow> s1
                     | Some e \<Rightarrow> record_events [LogError ''Error in mute_and_speak''] s1);
               s3 = handle_stops (stops_during w i) s2
           in if last_stop_signal s3 > start \<or> button_press w i then (s3, None)
              else speak_chunks w start ident (Suc i) chunks s3))"

text \<open>
  Lines 75 to 84, once the lock is free: \<open>with lock\<close> locks it, the stopwatch is
  started, the start message is emitted and, if a response is expected, the one-shot
  listener is registered.
\<close>

definition enter_speak :: "speak_event \<Rightarrow> speech \<Rightarrow> speech" where
  "enter_speak event s =
     (let s1 = record_events [Acquire, StopwatchStart, Emit ''mycroft.audio.speech.start'']
                 (s\<lparr>lock := True\<rparr>)
      in if ev_expect_response event
         then record_events [Once ''recognizer_loop:audio_output_end''] s1
         else s1)"

text \<open>
  Lines 111 to 113, given the state and the exception, if any, with which the body of
  \<open>with lock\<close> was left: \<open>stopwatch.stop()\<close> runs only if the body raised nothing; the
  exit of \<open>with\<close> releases the lock in either case, and an exception raised by that
  release replaces the one of the body; \<open>report_timing\<close> runs only if nothing was raised.
\<close>

definition leave_speak :: "string \<Rightarrow> speech \<times> py_error option \<Rightarrow> speech \<times> outcome" where
  "leave_speak ident body =
     (let (s3, r) = body;
          s4 = (case r of None \<Rightarrow> record_events [StopwatchStop] s3 | Some e \<Rightarrow> s3);
          (s5, r') = lock_release s4
      in case r' of
           Some e' \<Rightarrow> (s5, Raised e')
         | None \<Rightarrow>
             (case r of
                Some e \<Rightarrow> (s5, Raised e)
              | None \<Rightarrow> (record_events [ReportTiming ident] s5, Returned)))"

text \<open>
  \<open>handle_speak(event)\<close>. \<open>with lock\<close> waits while the lock is locked (\<open>Blocked\<close>: the
  call has not got further). The message is taken to carry an utterance.
\<close>

definition handle_speak :: "world \<Rightarrow> speak_event \<Rightarrow> speech \<Rightarrow> speech \<times> outcome" where
  "handle_speak w event s =
     (let cfg = configuration w;
          ident = (case ev_ident event of Some i \<Rightarrow> i | None \<Rightarrow> ''unknown'')
      in if lock s then (s, Blocked)
         else
           (let s2 = enter_speak event s;
                utterance = ev_utterance event;
                mute = ev_mute event
            in leave_speak ident
                 (if platform cfg \<noteq> Some ''picroft'' \<and>
                     length (findall_markup None utterance) = 0
                  then speak_chunks w (now w) ident 0 (re_split utterance) s2
                  else mute_and_speak w utterance ident mute s2)))"

subsection \<open>Reading the trace\<close>

text \<open>The utterances handed to an engine's \<open>execute\<close>, in order.\<close>

fun sent :: "event list \<Rightarrow> string list" where
  "sent [] = []"
| "sent (Execute engine utterance ident # evs) = utterance # sent evs"
| "sent (ev # evs) = sent evs"

text \<open>The calls of an engine swap: playback stop and join, construction, init.\<close>

fun is_swap :: "event \<Rightarrow> bool" where
  "is_swap (PlaybackStop engine) = True"
| "is_swap (PlaybackJoin engine) = True"
| "is_swap (Create engine) = True"
| "is_swap (EngineInit engine) = True"
| "is_swap ev = False"

definition swaps :: "event list \<Rightarrow> event list" where
  "swaps evs = filter is_swap evs"




subsection \<open>Example runs\<close>

text \<open>
  A world in which nothing goes wrong and nobody interrupts: the engine never raises,
  the factory works, no stop request arrives and the button is not pressed. The hash
  of a string is taken to be its length. \<open>started\<close> is the module after import and
  \<open>init\<close>; \<open>say u m\<close> is a \<open>speak\<close> message with utterance \<open>u\<close> and mute field \<open>m\<close>.
\<close>

definition quiet_world :: world where
  "quiet_world =
     \<lparr>py_hash = (\<lambda>t. int (length t)), execute_raises = (\<lambda>u. None), create_raises = False,
      configuration = \<lparr>platform = Some ''mycroft_mark_1'', tts_section = Some ''mimic''\<rparr>,
      now = 10, stops_during = (\<lambda>i. []), button_press = (\<lambda>i. False)\<rparr>"

definition say :: "string \<Rightarrow> bool \<Rightarrow> speak_event" where
  "say u m = \<lparr>ev_utterance = u, ev_ident = None, ev_expect_response = False, ev_mute = m\<rparr>"

definition started :: speech where
  "started = fst (init quiet_world loaded)"







section \<open>Properties of the mpv service\<close>

lemma play_mpv_index: "index (fst (play_mpv s)) = index s"
  by (simp add: play_mpv_def Let_def split: sum.splits)

lemma play_mpv_tracks: "tracks (fst (play_mpv s)) = tracks s"
  by (simp add: play_mpv_def Let_def split: sum.splits)

text \<open>
  Claim C9. \<open>next\<close> on a playlist whose index is at the last track leaves the index equal
  to the length of the track list; \<open>play\<close> then indexes the list at that out-of-range
  position (it raises IndexError after the player has been stopped, and nothing is
  played). For an index that is not negative, the index is 0 after \<open>next\<close> exactly when
  the advanced index is strictly greater than the length.
\<close>

theorem next_mpv_past_end:
  assumes "0 \<le> index s"
  shows "(tracks s \<noteq> [] \<and> index s = int (length (tracks s)) - 1 \<longrightarrow>
            index (fst (next_mpv s)) = int (length (tracks s)) \<and>
            snd (next_mpv s) = Some IndexError \<and>
            player (fst (next_mpv s)) = player s @ [PlayerStop]) \<and>
         (index (fst (next_mpv s)) = 0 \<longleftrightarrow> int (length (tracks s)) < index s + 1)"
proof -
  have idx: "index (fst (next_mpv s)) =
      (if int (length (tracks s)) < index s + 1 then 0 else index s + 1)"
    by (simp add: next_mpv_def Let_def play_mpv_index)
  have reset: "index (fst (next_mpv s)) = 0 \<longleftrightarrow> int (length (tracks s)) < index s + 1"
    using assms by (simp add: idx)
  have last: "index (fst (next_mpv s)) = int (length (tracks s)) \<and>
      snd (next_mpv s) = Some IndexError \<and>
      player (fst (next_mpv s)) = player s @ [PlayerStop]"
    if "tracks s \<noteq> []" and "index s = int (length (tracks s)) - 1"
    using that by (simp add: next_mpv_def play_mpv_def py_index_def Let_def)
  from reset last show ?thesis by blast
qed

theorem next_mpv_past_end_witness:
  "index (fst (next_mpv \<lparr>tracks = [''a.mp3'', ''b.mp3''], index = 1, player = []\<rparr>)) = 2 \<and>
   snd (next_mpv \<lparr>tracks = [''a.mp3'', ''b.mp3''], index = 1, player = []\<rparr>) = Some IndexError \<and>
   index (fst (next_mpv \<lparr>tracks = [''a.mp3'', ''b.mp3''], index = 2, player = []\<rparr>)) = 0"
  using next_mpv_past_end [of "\<lparr>tracks = [''a.mp3'', ''b.mp3''], index = 1, player = []\<rparr>"]
    next_mpv_past_end [of "\<lparr>tracks = [''a.mp3'', ''b.mp3''], index = 2, player = []\<rparr>"]
  by simp

section \<open>Properties of the cache curator\<close>

lemma os_remove_cases:
  "os_remove fs p = (if deletable fs p then Inr (unlink fs p) else Inl OSError)"
  by (simp add: os_remove_def deletable_def split: option.splits)

lemma deletable_after_remove:
  "q \<noteq> p \<Longrightarrow> deletable (unlink fs p) q = deletable fs q"
  by (simp add: deletable_def unlink_def)








lemma path_join_inj: "path_join d a = path_join d b \<Longrightarrow> a = b"
  by (simp add: path_join_def split: if_splits)

lemma distinct_path_join: "distinct names \<Longrightarrow> distinct (map (path_join d) names)"
  by (simp add: distinct_map inj_on_def path_join_inj)

lemma stat_entries_paths: "stat_entries fs paths = Inr ents \<Longrightarrow> map snd ents = paths"
  by (induction paths arbitrary: ents) (auto split: sum.splits)

lemma entry_path_regular_entries:
  "map entry_path (regular_entries ents) = map snd (filter (\<lambda>(st, path). st_isreg st) ents)"
  by (induction ents) (auto simp: regular_entries_def)

lemma distinct_regular_entries:
  assumes "distinct (map snd ents)"
  shows "distinct (map entry_path (regular_entries ents))"
  unfolding entry_path_regular_entries using assms by (rule distinct_map_filter)

lemma distinct_sorted_entries:
  assumes "distinct (map entry_path es)"
  shows "distinct (map entry_path (sort es))"
  using assms by (simp add: distinct_map)



lemma bytes_needed_pos:
  assumes "percent_free space < min_free_percent"
  shows "0 \<le> bytes_needed space min_free_percent"
proof -
  have "0 \<le> (min_free_percent - percent_free space) / 100 * of_nat (du_total space)"
    using assms by simp
  then show ?thesis by (simp add: bytes_needed_def py_int_def)
qed

lemma sweep_skips_failures:
  assumes "distinct (map entry_path es)" and "space_freed \<le> bn"
  shows "sweep bn es fs space_freed =
         sweep bn (filter (\<lambda>e. deletable fs (entry_path e)) es) fs space_freed"
  using assms
proof (induction es arbitrary: fs space_freed)
  case Nil
  show ?case by simp
next
  case (Cons e es)
  obtain m sz p where e: "e = (m, sz, p)" by (cases e) auto
  from Cons.prems have dist: "distinct (map entry_path es)" and fresh: "p \<notin> entry_path ` set es"
    by (auto simp: e)
  show ?case
  proof (cases "deletable fs p")
    case del: True
    show ?thesis
    proof (cases "bn < space_freed + int sz")
      case True
      with del show ?thesis by (simp add: e os_remove_cases)
    next
      case False
      then have le: "space_freed + int sz \<le> bn" by simp
      have same: "filter (\<lambda>e. deletable (unlink fs p) (entry_path e)) es =
                  filter (\<lambda>e. deletable fs (entry_path e)) es"
      proof (rule filter_cong [OF refl])
        fix x assume "x \<in> set es"
        with fresh have "entry_path x \<noteq> p" by auto
        then show "deletable (unlink fs p) (entry_path x) = deletable fs (entry_path x)"
          by (rule deletable_after_remove)
      qed
      from Cons.IH [OF dist le, of "unlink fs p"] same del False
      show ?thesis by (simp add: e os_remove_cases)
    qed
  next
    case False
    with Cons.IH [OF dist Cons.prems(2), of fs] Cons.prems(2)
    show ?thesis by (simp add: e os_remove_cases)
  qed
qed





lemma bytes_needed_full_disk: "bytes_needed full_disk 50 = 101"
  by (simp add: bytes_needed_def percent_free_def full_disk_def py_int_def)




text \<open>
  Claim C7. If it is not the case that the free percentage is below \<open>min_free_percent\<close>
  and the free bytes are below \<open>min_free_disk\<close> megabytes, \<open>curate_cache\<close> returns
  without an error and leaves the file system as it was.
\<close>

theorem curate_cache_below_threshold:
  assumes "usage fs = Some space"
    and "\<not> (percent_free space < min_free_percent \<and>
             of_nat (du_free space) < min_free_disk_mb * (1024 * 1024))"
  shows "curate_cache fs directory min_free_percent min_free_disk_mb = (fs, None)"
  using assms by (auto simp: curate_cache_def)


theorem curate_cache_below_threshold_witness:
  "usage cache_roomy = Some roomy_disk \<and>
   percent_free roomy_disk < 5 \<and>
   \<not> rat_of_nat (du_free roomy_disk) < 50 * (1024 * 1024) \<and>
   curate_cache cache_roomy ''/c'' 5 50 = (cache_roomy, None)"
proof -
  have u: "usage cache_roomy = Some roomy_disk"
    by (simp add: cache_roomy_def)
  have p: "percent_free roomy_disk < 5"
    by (simp add: percent_free_def roomy_disk_def)
  have f: "\<not> rat_of_nat (du_free roomy_disk) < 50 * (1024 * 1024)"
    by (simp add: roomy_disk_def)
  then have "\<not> (percent_free roomy_disk < 5 \<and>
      rat_of_nat (du_free roomy_disk) < 50 * (1024 * 1024))"
    by simp
  from curate_cache_below_threshold [OF u this] u p f show ?thesis by simp
qed








text \<open>
  Claim C8. A removal that fails during the sweep raises no error, does not end the
  sweep and adds nothing to \<open>space_freed\<close>: the call returns normally, and its result is
  that of the sweep over the sorted entries without the files whose removal fails,
  started from \<open>space_freed = 0\<close>.
\<close>

theorem curate_cache_failed_removal:
  assumes "usage fs = Some space" and "listing fs = Some names" and "distinct names"
    and "stat_entries fs (map (path_join directory) names) = Inr ents"
    and "percent_free space < min_free_percent"
    and "of_nat (du_free space) < min_free_disk_mb * (1024 * 1024)"
  shows "curate_cache fs directory min_free_percent min_free_disk_mb =
           (sweep (bytes_needed space min_free_percent)
              (filter (\<lambda>e. deletable fs (entry_path e)) (sort (regular_entries ents))) fs 0,
            None)"
proof -
  let ?es = "sort (regular_entries ents)"
  have "map snd ents = map (path_join directory) names"
    using assms(4) by (rule stat_entries_paths)
  with assms(3) have "distinct (map snd ents)"
    by (simp add: distinct_path_join)
  then have dist: "distinct (map entry_path ?es)"
    by (intro distinct_sorted_entries distinct_regular_entries)
  have pos: "0 \<le> bytes_needed space min_free_percent"
    using assms(5) by (rule bytes_needed_pos)
  have "curate_cache fs directory min_free_percent min_free_disk_mb =
      (sweep (bytes_needed space min_free_percent) ?es fs 0, None)"
    using assms by (simp add: curate_cache_def)
  with sweep_skips_failures [OF dist pos, of fs] show ?thesis by simp
qed




theorem curate_cache_failed_removal_witness:
  "\<not> deletable cache_locked ''/c/a'' \<and>
   curate_cache cache_locked ''/c'' 50 50 = (unlink cache_locked ''/c/b'', None)"
proof -
  have u: "usage cache_locked = Some full_disk"
    and l: "listing cache_locked = Some [''b'', ''d'', ''a'']"
    by (simp_all add: cache_locked_def)
  have d: "distinct [''b'', ''d'', ''a'']" by simp
  have e: "stat_entries cache_locked (map (path_join ''/c'') [''b'', ''d'', ''a'']) =
      Inr [(stat_b, ''/c/b''), (stat_d, ''/c/d''), (stat_a, ''/c/a'')]"
    by (simp add: cache_locked_def path_join_def os_stat_def)
  have p: "percent_free full_disk < 50"
    by (simp add: percent_free_def full_disk_def)
  have f: "rat_of_nat (du_free full_disk) < 50 * (1024 * 1024)"
    by (simp add: full_disk_def)
  have s: "sort (regular_entries [(stat_b, ''/c/b''), (stat_d, ''/c/d''), (stat_a, ''/c/a'')]) =
      [(1, 101, ''/c/a''), (2, 10, ''/c/b'')]"
    by (simp add: regular_entries_def stat_a_def stat_b_def stat_d_def)
  have del: "\<not> deletable cache_locked ''/c/a''" "deletable cache_locked ''/c/b''"
    by (simp_all add: deletable_def cache_locked_def)
  from curate_cache_failed_removal [OF u l d e p f] del
  show ?thesis by (simp add: s os_remove_cases bytes_needed_full_disk)
qed


section \<open>Properties of the speech module\<close>

lemma trace_record_events [simp]: "trace (record_events evs s) = trace s @ evs"
  and speak_flag_record_events [simp]: "speak_flag (record_events evs s) = speak_flag s"
  and config_record_events [simp]: "config (record_events evs s) = config s"
  and tts_record_events [simp]: "tts (record_events evs s) = tts s"
  and tts_hash_record_events [simp]: "tts_hash (record_events evs s) = tts_hash s"
  and lock_record_events [simp]: "lock (record_events evs s) = lock s"
  and marker_record_events [simp]: "last_stop_signal (record_events evs s) = last_stop_signal s"
  and created_record_events [simp]: "created (record_events evs s) = created s"
  by (simp_all add: record_events_def)

lemma sent_append [simp]: "sent (xs @ ys) = sent xs @ sent ys"
  by (induction xs rule: sent.induct) simp_all

lemma swaps_append [simp]: "swaps (xs @ ys) = swaps xs @ swaps ys"
  by (simp add: swaps_def)

lemma sent_lock_release [simp]: "sent (trace (fst (lock_release s))) = sent (trace s)"
  by (simp add: lock_release_def)

lemma sent_replace_tts [simp]: "sent (trace (fst (replace_tts w cfg s))) = sent (trace s)"
  by (simp add: replace_tts_def Let_def split: option.splits)

lemma sent_enter_speak [simp]: "sent (trace (enter_speak event s)) = sent (trace s)"
  by (simp add: enter_speak_def Let_def)

lemma sent_leave_speak [simp]:
  "sent (trace (fst (leave_speak ident body))) = sent (trace (fst body))"
  by (cases body) (simp add: leave_speak_def Let_def case_prod_beta split: option.splits)

lemma enter_speak_fields [simp]:
  "config (enter_speak event s) = config s" "tts (enter_speak event s) = tts s"
  "speak_flag (enter_speak event s) = speak_flag s"
  "tts_hash (enter_speak event s) = tts_hash s"
  "created (enter_speak event s) = created s"
  "last_stop_signal (enter_speak event s) = last_stop_signal s"
  "lock (enter_speak event s)"
  by (simp_all add: enter_speak_def Let_def)





lemma started_eq:
  "started =
     \<lparr>speak_flag = True,
      config = Some \<lparr>platform = Some ''mycroft_mark_1'', tts_section = Some ''mimic''\<rparr>,
      tts = Some 0, tts_hash = Raw (Some ''mimic''), lock = False, last_stop_signal = 0,
      trace = [On ''mycroft.stop'', On ''mycroft.audio.speech.stop'', On ''mycroft.mic.listen'',
               On ''speak'', On ''speak.enable'', On ''speak.disable'',
               On ''speak.status.request'', Create 0, EngineInit 0],
      created = 1\<rparr>"
  by (simp add: started_def init_def quiet_world_def loaded_def record_events_def Let_def)



lemma handle_stops_Nil: "handle_stops [] s = s"
  by (simp add: handle_stops_def)

lemma handle_stops_Cons: "handle_stops (req # reqs) s = handle_stops reqs (fst (handle_stop req s))"
  by (simp add: handle_stops_def)






lemma sent_handle_stop [simp]: "sent (trace (fst (handle_stop req s))) = sent (trace s)"
  by (simp add: handle_stop_def Let_def split: option.splits)

lemma sent_handle_stops [simp]: "sent (trace (handle_stops reqs s)) = sent (trace s)"
  by (induction reqs arbitrary: s) (simp_all add: handle_stops_Nil handle_stops_Cons)




text \<open>
  Claim C5. The splitter cuts \<open>Hello world. Dr. Smith is here. Go now?\<close> into
  \<open>Hello world.\<close>, \<open>Dr. Smith is here.\<close> and \<open>Go now?\<close>: the pattern matches the
  blank after \<open>world.\<close> and the blank after \<open>here.\<close>, and the lookbehind for a
  capital, a small letter and a period keeps it from matching the blank after \<open>Dr.\<close>
\<close>

theorem re_split_example:
  "re_split ''Hello world. Dr. Smith is here. Go now?'' =
     [''Hello world.'', ''Dr. Smith is here.'', ''Go now?''] \<and>
   boundary (rev ''Hello world.'') (CHR '' '') \<and>
   \<not> boundary (rev ''Hello world. Dr.'') (CHR '' '') \<and>
   boundary (rev ''Hello world. Dr. Smith is here.'') (CHR '' '')"
  by (simp add: re_split_def boundary_def is_space_def is_upper_def is_lower_def is_word_def
      less_eq_char_def)


text \<open>
  Claim C10. While the speech flag is false, \<open>mute_and_speak\<close> logs the utterance and
  returns: nothing is handed to the engine, no call of an engine swap is made, the
  engine and the recorded fingerprint are unchanged, and the lock is neither released
  nor otherwise changed.
\<close>

theorem mute_and_speak_disabled:
  assumes "\<not> speak_flag s"
  shows "mute_and_speak w utterance ident mute s =
           (record_events [LogInfo (''Speak: '' @ utterance)] s, None) \<and>
         sent (trace (fst (mute_and_speak w utterance ident mute s))) = sent (trace s) \<and>
         swaps (trace (fst (mute_and_speak w utterance ident mute s))) = swaps (trace s) \<and>
         tts (fst (mute_and_speak w utterance ident mute s)) = tts s \<and>
         tts_hash (fst (mute_and_speak w utterance ident mute s)) = tts_hash s \<and>
         lock (fst (mute_and_speak w utterance ident mute s)) = lock s \<and>
         Release \<notin> set (drop (length (trace s))
                          (trace (fst (mute_and_speak w utterance ident mute s))))"
proof -
  have "mute_and_speak w utterance ident mute s =
      (record_events [LogInfo (''Speak: '' @ utterance)] s, None)"
    using assms by (simp add: mute_and_speak_def Let_def)
  then show ?thesis by (simp add: swaps_def)
qed

theorem mute_and_speak_disabled_witness:
  "\<not> speak_flag (unset_speak_flag started) \<and>
   mute_and_speak quiet_world ''Hello.'' ''unknown'' False (unset_speak_flag started) =
     (record_events [LogInfo ''Speak: Hello.''] (unset_speak_flag started), None) \<and>
   tts_hash (fst (mute_and_speak quiet_world ''Hello.'' ''unknown'' False
                    (unset_speak_flag started))) = Raw (Some ''mimic'')"
proof -
  have off: "\<not> speak_flag (unset_speak_flag started)"
    by (simp add: unset_speak_flag_def)
  have "tts_hash (unset_speak_flag started) = Raw (Some ''mimic'')"
    by (simp add: unset_speak_flag_def started_eq)
  with mute_and_speak_disabled [OF off, of quiet_world "''Hello.''" "''unknown''" False] off
  show ?thesis by simp
qed

text \<open>
  Claim C1, evaluated on the first \<open>speak\<close> message after \<open>init\<close>, with the utterance
  \<open>One. Two.\<close> and speech enabled. \<open>mute_and_speak\<close> releases the lock after the first
  chunk, the second chunk is handed to the engine while the lock is not held, the
  release after the second chunk raises and is logged, and the release at the exit of
  \<open>with lock\<close> raises out of \<open>handle_speak\<close>, so that \<open>report_timing\<close> is not
  reached.
\<close>

theorem handle_speak_second_release:
  "snd (handle_speak quiet_world (say ''One. Two.'' False) started) = Raised RuntimeError \<and>
   drop (length (trace started))
     (trace (fst (handle_speak quiet_world (say ''One. Two.'' False) started))) =
     [Acquire, StopwatchStart, Emit ''mycroft.audio.speech.start'',
      LogInfo ''Speak: One.'', PlaybackStop 0, PlaybackJoin 0, Create 1, EngineInit 1,
      Execute 1 ''One.'' ''unknown'', Release,
      LogInfo ''Speak: Two.'', Execute 1 ''Two.'' ''unknown'',
      LogError ''Error in mute_and_speak'', StopwatchStop]"
  by code_simp














































end
